theory Spec2Isabelle
  imports Complex_Main
begin

section \<open>Python values and errors\<close>

text \<open>
  The exceptions the modelled functions can raise, under their Python names. The
  specification calls the division by zero of the chunk partitioner
  \<open>InvalidCountError\<close> and the failed index lookup of the primary-track search
  \<open>PrimaryNotFoundError\<close>; in the source they are \<open>ZeroDivisionError\<close> and
  \<open>IndexError\<close>.
\<close>

datatype error =
    ZeroDivisionError
  | IndexError
  | KeyError
  | AttributeError
  | TypeError
  | ValueError
  | IOError

text \<open>Sequencing of fallible steps: the first exception aborts the rest.\<close>

fun ebind :: "error + 'a \<Rightarrow> ('a \<Rightarrow> error + 'b) \<Rightarrow> error + 'b" where
  "ebind (Inl e) f = Inl e"
| "ebind (Inr x) f = f x"

section \<open>\<open>make_data_split.py\<close>: the chunk partitioner\<close>

text \<open>
  \<open>divmod(x, y)\<close> on Python integers: floor division and the remainder with the sign
  of the divisor (as \<open>div\<close> and \<open>mod\<close> on \<open>int\<close>), raising on a zero divisor.
\<close>

definition py_divmod :: "int \<Rightarrow> int \<Rightarrow> error + int \<times> int" where
  "py_divmod x y = (if y = 0 then Inl ZeroDivisionError else Inr (x div y, x mod y))"

text \<open>
  A slice bound of \<open>a[lo:hi]\<close>: a negative bound counts from the end, and every bound
  is clamped to \<open>0..len(a)\<close>.
\<close>

definition slice_bound :: "nat \<Rightarrow> int \<Rightarrow> nat" where
  "slice_bound len i = (if i < 0 then nat (max 0 (i + int len)) else min (nat i) len)"

definition py_slice :: "'a list \<Rightarrow> int \<Rightarrow> int \<Rightarrow> 'a list" where
  "py_slice a lo hi =
     (let l = slice_bound (length a) lo; h = slice_bound (length a) hi
      in take (h - l) (drop l a))"

text \<open>\<open>range(n)\<close>: the integers \<open>0 .. n - 1\<close>, none when \<open>n \<le> 0\<close>.\<close>

definition py_range :: "int \<Rightarrow> int list" where
  "py_range n = map int [0..<nat n]"

text \<open>
  \<^verbatim>\<open>k, m = divmod(len(a), n)\<close>
  \<^verbatim>\<open>a_split = list((a[i * k + min(i, m):(i + 1) * k + min(i + 1, m)] for i in range(n)))\<close>
\<close>

definition split :: "'a list \<Rightarrow> int \<Rightarrow> error + 'a list list" where
  "split a n =
     (case py_divmod (int (length a)) n of
        Inl e \<Rightarrow> Inl e
      | Inr (k, m) \<Rightarrow>
          Inr (map (\<lambda>i. py_slice a (i * k + min i m) ((i + 1) * k + min (i + 1) m))
                   (py_range n)))"

text \<open>
  The offset at which chunk \<open>i\<close> starts, over the naturals; used to describe the slices
  of \<open>split\<close> in the proofs.
\<close>

definition chunk_start :: "nat \<Rightarrow> nat \<Rightarrow> nat \<Rightarrow> nat" where
  "chunk_start k m i = i * k + min i m"

section \<open>\<open>make_data_split.py\<close>: the file inventory\<close>

text \<open>
  The HDF5 files the inventory reads, as far as it reads them: a file maps dataset keys
  to datasets, a dataset is its list of rows (\<open>dset.shape[0]\<close> is their number), and a
  row maps column names to values. The store maps a file path to the file's content;
  a path it does not know cannot be opened.
\<close>

type_synonym 'v h5row = "string \<rightharpoonup> 'v"
type_synonym 'v h5dataset = "'v h5row list"
type_synonym 'v h5file = "string \<rightharpoonup> 'v h5dataset"
type_synonym 'v h5store = "string \<rightharpoonup> 'v h5file"

text \<open>\<open>x / y\<close> on Python integers: true division, raising on a zero divisor.\<close>

definition py_truediv :: "int \<Rightarrow> int \<Rightarrow> error + real" where
  "py_truediv x y = (if y = 0 then Inl ZeroDivisionError else Inr (real_of_int x / real_of_int y))"

text \<open>
  The loop of \<open>get_number_of_evts_and_run_ids\<close> over \<open>list_of_files\<close>, with the running
  \<open>total_number_of_evts\<close> and \<open>run_ids\<close> as arguments. Per file: open it, take the
  dataset and its row count, add the count, read the run id from the first row of the
  dataset, append it.
\<close>

fun collect_files ::
  "'v h5store \<Rightarrow> string \<Rightarrow> string \<Rightarrow> string list \<Rightarrow> int \<Rightarrow> 'v list \<Rightarrow> error + int \<times> 'v list"
where
  "collect_files store dataset_key run_id_col_name [] total_number_of_evts run_ids =
     Inr (total_number_of_evts, run_ids)"
| "collect_files store dataset_key run_id_col_name (fpath # rest) total_number_of_evts run_ids =
     (case store fpath of
        None \<Rightarrow> Inl IOError
      | Some f \<Rightarrow>
          (case f dataset_key of
             None \<Rightarrow> Inl KeyError
           | Some dset \<Rightarrow>
               (case dset of
                  [] \<Rightarrow> Inl IndexError
                | first_row # _ \<Rightarrow>
                    (case first_row run_id_col_name of
                       None \<Rightarrow> Inl ValueError
                     | Some run_id \<Rightarrow>
                         collect_files store dataset_key run_id_col_name rest
                           (total_number_of_evts + int (length dset)) (run_ids @ [run_id])))))"

text \<open>
  \<^verbatim>\<open>mean_number_of_evts_per_file = total_number_of_evts / len(list_of_files)\<close>
  \<^verbatim>\<open>return total_number_of_evts, mean_number_of_evts_per_file, run_ids\<close>
\<close>

definition get_number_of_evts_and_run_ids ::
  "'v h5store \<Rightarrow> string list \<Rightarrow> string \<Rightarrow> string \<Rightarrow> error + int \<times> real \<times> 'v list"
where
  "get_number_of_evts_and_run_ids store list_of_files dataset_key run_id_col_name =
     ebind (collect_files store dataset_key run_id_col_name list_of_files 0 [])
       (\<lambda>(total_number_of_evts, run_ids).
          ebind (py_truediv total_number_of_evts (int (length list_of_files)))
            (\<lambda>mean_number_of_evts_per_file.
               Inr (total_number_of_evts, mean_number_of_evts_per_file, run_ids)))"

section \<open>\<open>file_to_hits.py\<close>: numpy values\<close>

text \<open>
  A \<open>float64\<close> value, idealised: a finite value is a real number (rounding, overflow and
  the infinities are not modelled), and \<open>NaN\<close> is numpy's not-a-number. Arithmetic
  propagates \<open>NaN\<close>.
\<close>

datatype npfloat = Num real | NaN

fun np_lift2 :: "(real \<Rightarrow> real \<Rightarrow> real) \<Rightarrow> npfloat \<Rightarrow> npfloat \<Rightarrow> npfloat" where
  "np_lift2 f (Num x) (Num y) = Num (f x y)"
| "np_lift2 f NaN y = NaN"
| "np_lift2 f (Num x) NaN = NaN"

definition np_add :: "npfloat \<Rightarrow> npfloat \<Rightarrow> npfloat" where
  "np_add = np_lift2 (+)"

definition np_sub :: "npfloat \<Rightarrow> npfloat \<Rightarrow> npfloat" where
  "np_sub = np_lift2 (-)"

definition np_mul :: "npfloat \<Rightarrow> npfloat \<Rightarrow> npfloat" where
  "np_mul = np_lift2 (*)"

text \<open>
  Division is only used with a divisor that is not zero (an element count, or a weight
  sum checked before); on a zero divisor this model answers \<open>NaN\<close>.
\<close>

fun np_div :: "npfloat \<Rightarrow> npfloat \<Rightarrow> npfloat" where
  "np_div (Num x) (Num y) = (if y = 0 then NaN else Num (x / y))"
| "np_div NaN y = NaN"
| "np_div (Num x) NaN = NaN"

text \<open>\<open>np.sum\<close> of a one-dimensional array; the sum of no elements is \<open>0.0\<close>.\<close>

definition np_sum :: "npfloat list \<Rightarrow> npfloat" where
  "np_sum xs = foldr np_add xs (Num 0)"

text \<open>
  \<open>np.mean\<close> of a one-dimensional array. The mean of an empty array is \<open>nan\<close> (numpy
  warns, it does not raise).
\<close>

definition np_mean :: "npfloat list \<Rightarrow> npfloat" where
  "np_mean xs = (if xs = [] then NaN else np_div (np_sum xs) (Num (real (length xs))))"

text \<open>
  \<open>np.average(a, weights=w)\<close> for one-dimensional arrays: shapes that differ raise
  \<open>TypeError\<close>, weights that sum to zero raise \<open>ZeroDivisionError\<close>.
\<close>

definition np_average :: "npfloat list \<Rightarrow> npfloat list \<Rightarrow> error + npfloat" where
  "np_average a w =
     (if length a \<noteq> length w then Inl TypeError
      else if np_sum w = Num 0 then Inl ZeroDivisionError
      else Inr (np_div (np_sum (map2 np_mul a w)) (np_sum w)))"

text \<open>\<open>x.astype(bool)\<close>: every value but zero is true, \<open>nan\<close> included.\<close>

definition np_truthy :: "npfloat \<Rightarrow> bool" where
  "np_truthy x = (x \<noteq> Num 0)"

text \<open>
  \<open>obj.__array__[idx]\<close> on a record array. \<open>__array__\<close> is a bound method of the
  array, and a method cannot be subscripted: whatever the index, Python raises
  \<open>TypeError\<close> and selects nothing.
\<close>

definition subscript_array_method :: "'a list \<Rightarrow> bool list \<Rightarrow> error + 'a list" where
  "subscript_array_method xs idx = Inl TypeError"

text \<open>\<open>np.where(mask)[0]\<close>: the indices at which the mask holds, ascending.\<close>

definition np_where :: "bool list \<Rightarrow> nat list" where
  "np_where cond = filter (\<lambda>i. cond ! i) [0..<length cond]"

text \<open>\<open>xs[i]\<close> for an index \<open>i \<ge> 0\<close>.\<close>

definition index :: "'a list \<Rightarrow> nat \<Rightarrow> error + 'a" where
  "index xs i = (if i < length xs then Inr (xs ! i) else Inl IndexError)"

text \<open>
  \<open>xs[mask]\<close> with a boolean mask: the elements at which the mask holds, in order. A
  mask of another length raises \<open>IndexError\<close>.
\<close>

definition bool_index :: "'a list \<Rightarrow> bool list \<Rightarrow> error + 'a list" where
  "bool_index xs cond =
     (if length cond \<noteq> length xs then Inl IndexError
      else Inr (map snd (filter fst (zip cond xs))))"

text \<open>
  A two-dimensional \<open>float64\<close> array of shape \<open>(length data, ncols)\<close>, stored by rows.
  The column count is a field of its own: an array without rows still has its columns.
\<close>

record ndarray2 =
  ncols :: nat
  data :: "npfloat list list"

text \<open>\<open>xs[:, np.newaxis]\<close>: a one-dimensional array as a single column.\<close>

definition newaxis :: "npfloat list \<Rightarrow> ndarray2" where
  "newaxis xs = \<lparr>ncols = 1, data = map (\<lambda>x. [x]) xs\<rparr>"

text \<open>
  \<open>np.concatenate(arrays, axis=1)\<close>: the arrays side by side. It raises \<open>ValueError\<close>
  on an empty list and when the row counts differ.
\<close>

definition concatenate_axis1 :: "ndarray2 list \<Rightarrow> error + ndarray2" where
  "concatenate_axis1 arrays =
     (case arrays of
        [] \<Rightarrow> Inl ValueError
      | a # as \<Rightarrow>
          if list_all (\<lambda>b. length (data b) = length (data a)) as
          then Inr \<lparr>ncols = sum_list (map ncols arrays),
                    data = map (\<lambda>i. concat (map (\<lambda>b. data b ! i) arrays))
                               [0..<length (data a)]\<rparr>
          else Inl ValueError)"

text \<open>\<open>m[:, j]\<close> for a column index \<open>j \<ge> 0\<close>.\<close>

definition column_of :: "ndarray2 \<Rightarrow> nat \<Rightarrow> error + npfloat list" where
  "column_of m j = (if j < ncols m then Inr (map (\<lambda>r. r ! j) (data m)) else Inl IndexError)"

section \<open>\<open>file_to_hits.py\<close>: the event blob\<close>

text \<open>
  A table of the blob (a km3pipe table, a numpy record array): the field names of its
  dtype and its rows; a row gives the value of each field.
\<close>

type_synonym np_record = "string \<Rightarrow> npfloat"

record table =
  dtype_names :: "string list"
  rows :: "np_record list"

text \<open>\<open>tab.name\<close>: the column of a field; a name that is no field raises.\<close>

definition attr :: "table \<Rightarrow> string \<Rightarrow> error + npfloat list" where
  "attr tab name =
     (if name \<in> set (dtype_names tab) then Inr (map (\<lambda>r. r name) (rows tab))
      else Inl AttributeError)"

text \<open>\<open>tab[i].name\<close> for a row index \<open>i \<ge> 0\<close>: the index is looked up first.\<close>

definition row_attr :: "table \<Rightarrow> nat \<Rightarrow> string \<Rightarrow> error + npfloat" where
  "row_attr tab i name =
     (if \<not> i < length (rows tab) then Inl IndexError
      else if name \<in> set (dtype_names tab) then Inr ((rows tab ! i) name)
      else Inl AttributeError)"

text \<open>\<open>tab[i:]\<close> for \<open>i \<ge> 0\<close>.\<close>

definition rows_from :: "table \<Rightarrow> nat \<Rightarrow> table" where
  "rows_from tab i = tab\<lparr>rows := drop i (rows tab)\<rparr>"

text \<open>\<open>tab[0][0]\<close>: the first field of the first row.\<close>

definition first_item :: "table \<Rightarrow> error + npfloat" where
  "first_item tab =
     ebind (index (rows tab) 0) (\<lambda>r. ebind (index (dtype_names tab) 0) (\<lambda>name. Inr (r name)))"

text \<open>
  The event blob is a dictionary. The pump that fills it keys it by table names, which
  are strings; the key type has the integers too, since the code also subscripts the blob
  with one. An entry is a table, the run header (of which the model keeps
  \<open>start_run.run_id\<close>), or a dictionary again.
\<close>

datatype blob_key = SKey string | IKey int

datatype blob_value =
    TableV table
  | HeaderV npfloat
  | BlobV "blob_key \<Rightarrow> blob_value option"

type_synonym blob = "blob_key \<Rightarrow> blob_value option"

text \<open>\<open>d[key]\<close> on a dictionary.\<close>

definition getitem :: "blob \<Rightarrow> blob_key \<Rightarrow> error + blob_value" where
  "getitem d key = (case d key of None \<Rightarrow> Inl KeyError | Some v \<Rightarrow> Inr v)"

text \<open>
  An entry used as a table, as a header or as a dictionary. An entry of another kind
  has not the attributes (or the subscript) asked of it.
\<close>

fun as_table :: "blob_value \<Rightarrow> error + table" where
  "as_table (TableV tab) = Inr tab"
| "as_table (HeaderV r) = Inl AttributeError"
| "as_table (BlobV d) = Inl AttributeError"

fun start_run_run_id :: "blob_value \<Rightarrow> error + npfloat" where
  "start_run_run_id (HeaderV r) = Inr r"
| "start_run_run_id (TableV tab) = Inl AttributeError"
| "start_run_run_id (BlobV d) = Inl AttributeError"

fun as_dict :: "blob_value \<Rightarrow> error + blob" where
  "as_dict (BlobV d) = Inr d"
| "as_dict (TableV tab) = Inl TypeError"
| "as_dict (HeaderV r) = Inl TypeError"

text \<open>
  \<open>d['name']\<close> where a table is expected. (An entry that is no table fails where it is
  first used as one; the model reports that at the lookup.)
\<close>

definition get_table :: "blob \<Rightarrow> string \<Rightarrow> error + table" where
  "get_table d name = ebind (getitem d (SKey name)) as_table"

text \<open>
  A value of the \<open>data_cuts\<close> dictionary: a boolean switch or a number.
\<close>

datatype cut_value = BoolV bool | NumV real

section \<open>\<open>file_to_hits.py\<close>: the functions\<close>

text \<open>
  \<^verbatim>\<open>bjorken_y_array = event_blob['McTracks'].bjorkeny\<close>
  \<^verbatim>\<open>primary_index = np.where(bjorken_y_array != 0.0)[0][0]\<close>
\<close>

definition get_primary_track_index :: "blob \<Rightarrow> error + nat" where
  "get_primary_track_index event_blob =
     ebind (get_table event_blob ''McTracks'') (\<lambda>mc_tracks.
     ebind (attr mc_tracks ''bjorkeny'') (\<lambda>bjorken_y_array.
     index (np_where (map (\<lambda>y. y \<noteq> Num 0) bjorken_y_array)) 0))"

text \<open>
  \<^verbatim>\<open>hits_time_triggered = hits_time[triggered == 1]\<close>
  \<^verbatim>\<open>t_mean_triggered = np.mean(hits_time_triggered, dtype=np.float64)\<close>
  \<^verbatim>\<open>time_residual_vertex = t_mean_triggered - time_interaction\<close>
\<close>

definition get_time_residual_nu_interaction_mean_triggered_hits ::
  "npfloat \<Rightarrow> npfloat list \<Rightarrow> npfloat list \<Rightarrow> error + npfloat"
where
  "get_time_residual_nu_interaction_mean_triggered_hits time_interaction hits_time triggered =
     ebind (bool_index hits_time (map (\<lambda>t. t = Num 1) triggered)) (\<lambda>hits_time_triggered.
     Inr (np_sub (np_mean hits_time_triggered) time_interaction))"

text \<open>
  \<open>get_hits\<close> from the trigger cut on (lines 88 to 102, the part after the calibration
  step): the optional filter on the \<open>triggered\<close> column, the five columns side by side,
  and the channel id as a sixth column under
  \<^verbatim>\<open>do4d[0] is True and do4d[1] == 'channel_id' or do4d[1] == 'xzt-c'\<close>
  (\<open>and\<close> binds tighter than \<open>or\<close>). The filter is written
  \<^verbatim>\<open>hits = hits.__array__[hits.triggered.astype(bool)]\<close>
  There the mask is computed first (a table without \<open>triggered\<close> raises
  \<open>AttributeError\<close>), then the method \<open>hits.__array__\<close> is subscripted with it.
\<close>

definition assemble_hits ::
  "table \<Rightarrow> (string \<rightharpoonup> cut_value) \<Rightarrow> bool \<times> string \<Rightarrow> error + ndarray2"
where
  "assemble_hits hits0 data_cuts do4d =
     ebind (case data_cuts ''triggered'' of None \<Rightarrow> Inl KeyError | Some c \<Rightarrow> Inr c) (\<lambda>cut_triggered.
     ebind (if cut_triggered = BoolV True
            then ebind (attr hits0 ''triggered'') (\<lambda>trig.
                 ebind (subscript_array_method (rows hits0) (map np_truthy trig)) (\<lambda>kept.
                 Inr (hits0\<lparr>rows := kept\<rparr>)))
            else Inr hits0) (\<lambda>hits.
     ebind (attr hits ''pos_x'') (\<lambda>pos_x.
     ebind (attr hits ''pos_y'') (\<lambda>pos_y.
     ebind (attr hits ''pos_z'') (\<lambda>pos_z.
     ebind (attr hits ''time'') (\<lambda>hits_time.
     ebind (attr hits ''triggered'') (\<lambda>triggered.
     ebind (concatenate_axis1 [newaxis pos_x, newaxis pos_y, newaxis pos_z,
                               newaxis hits_time, newaxis triggered]) (\<lambda>event_hits.
     if fst do4d = True \<and> snd do4d = ''channel_id'' \<or> snd do4d = ''xzt-c''
     then ebind (attr hits ''channel_id'') (\<lambda>channel_id.
          concatenate_axis1 [event_hits, newaxis channel_id])
     else Inr event_hits))))))))"

text \<open>
  \<open>get_hits\<close>. The calibration service \<open>geo\<close> is a function on tables, or \<open>None\<close>. The
  result comes with the list of the tables \<open>geo.apply\<close> was called on, in call order.

  \<^verbatim>\<open>hits = event_blob['Hits'] if do_mc_hits is False else event_blob['McHits']\<close>
  \<^verbatim>\<open>if 'pos_x' not in event_blob['Hits'].dtype.names: hits = geo.apply(hits)\<close>
\<close>

definition get_hits ::
  "blob \<Rightarrow> (table \<Rightarrow> table) option \<Rightarrow> bool \<Rightarrow> (string \<rightharpoonup> cut_value) \<Rightarrow> bool \<times> string
     \<Rightarrow> table list \<times> (error + ndarray2)"
where
  "get_hits event_blob geo do_mc_hits data_cuts do4d =
     (case get_table event_blob (if do_mc_hits = False then ''Hits'' else ''McHits'') of
        Inl e \<Rightarrow> ([], Inl e)
      | Inr hits \<Rightarrow>
          (case get_table event_blob ''Hits'' of
             Inl e \<Rightarrow> ([], Inl e)
           | Inr blob_hits \<Rightarrow>
               if ''pos_x'' \<notin> set (dtype_names blob_hits)
               then (case geo of
                       None \<Rightarrow> ([], Inl AttributeError)
                     | Some geo_apply \<Rightarrow> ([hits], assemble_hits (geo_apply hits) data_cuts do4d))
               else ([], assemble_hits hits data_cuts do4d)))"

text \<open>
  The head of \<open>get_tracks\<close>: the event id, and the run id from the header if the blob has
  one, from the raw header otherwise. The cast \<open>astype('float32')\<close> is the parameter
  \<open>float32\<close>.
\<close>

definition event_and_run_id :: "(npfloat \<Rightarrow> npfloat) \<Rightarrow> blob \<Rightarrow> error + npfloat \<times> npfloat" where
  "event_and_run_id float32 event_blob =
     ebind (get_table event_blob ''EventInfo'') (\<lambda>event_info.
     ebind (attr event_info ''event_id'') (\<lambda>event_ids.
     ebind (index event_ids 0) (\<lambda>event_id.
     ebind (if event_blob (SKey ''Header'') \<noteq> None
            then ebind (getitem event_blob (SKey ''Header'')) (\<lambda>header.
                 ebind (start_run_run_id header) (\<lambda>r. Inr (float32 r)))
            else ebind (get_table event_blob ''RawHeader'') (\<lambda>raw_header.
                 ebind (first_item raw_header) (\<lambda>r. Inr (float32 r)))) (\<lambda>run_id.
     Inr (event_id, run_id)))))"

text \<open>
  The weights of the vertex average, as the source writes them:
  \<^verbatim>\<open>event_blob[4]['McTracks'][1:].energy\<close>
\<close>

definition vertex_weights :: "blob \<Rightarrow> error + npfloat list" where
  "vertex_weights event_blob =
     ebind (getitem event_blob (IKey 4)) (\<lambda>entry.
     ebind (as_dict entry) (\<lambda>d.
     ebind (get_table d ''McTracks'') (\<lambda>tracks.
     attr (rows_from tracks 1) ''energy'')))"

text \<open>
  The \<open>'muon'\<close> branch of \<open>get_tracks\<close>. Row 0 of \<open>McTracks\<close> is the empty neutrino
  track; the fields of the bundle are read from row 1.
\<close>

definition muon_track :: "blob \<Rightarrow> npfloat \<Rightarrow> npfloat \<Rightarrow> error + npfloat list" where
  "muon_track event_blob event_id run_id =
     ebind (get_table event_blob ''McTracks'') (\<lambda>mc_tracks.
     ebind (row_attr mc_tracks 1 ''type'') (\<lambda>particle_type.
     ebind (row_attr mc_tracks 1 ''is_cc'') (\<lambda>is_cc.
     ebind (row_attr mc_tracks 1 ''bjorkeny'') (\<lambda>bjorkeny.
     ebind (row_attr mc_tracks 1 ''time'') (\<lambda>time_interaction.
     ebind (Inr (int (length (rows mc_tracks)) - 1)) (\<lambda>n_muons.
     ebind (attr mc_tracks ''energy'') (\<lambda>energies.
     ebind (Inr (np_sum energies)) (\<lambda>energy.
     ebind (row_attr mc_tracks 1 ''dir_x'') (\<lambda>dir_x.
     ebind (row_attr mc_tracks 1 ''dir_y'') (\<lambda>dir_y.
     ebind (row_attr mc_tracks 1 ''dir_z'') (\<lambda>dir_z.
     ebind (attr (rows_from mc_tracks 1) ''pos_x'') (\<lambda>xs.
     ebind (vertex_weights event_blob) (\<lambda>wx.
     ebind (np_average xs wx) (\<lambda>vertex_pos_x.
     ebind (attr (rows_from mc_tracks 1) ''pos_y'') (\<lambda>ys.
     ebind (vertex_weights event_blob) (\<lambda>wy.
     ebind (np_average ys wy) (\<lambda>vertex_pos_y.
     ebind (attr (rows_from mc_tracks 1) ''pos_z'') (\<lambda>zs.
     ebind (vertex_weights event_blob) (\<lambda>wz.
     ebind (np_average zs wz) (\<lambda>vertex_pos_z.
     Inr [event_id, particle_type, energy, is_cc, bjorkeny, dir_x, dir_y, dir_z,
          time_interaction, run_id, vertex_pos_x, vertex_pos_y, vertex_pos_z,
          Num (real_of_int n_muons)]))))))))))))))))))))"

text \<open>The \<open>'neutrino'\<close> branch of \<open>get_tracks\<close>.\<close>

definition neutrino_track ::
  "blob \<Rightarrow> ndarray2 \<Rightarrow> npfloat \<Rightarrow> npfloat \<Rightarrow> error + npfloat list"
where
  "neutrino_track event_blob event_hits event_id run_id =
     ebind (get_primary_track_index event_blob) (\<lambda>p.
     ebind (get_table event_blob ''McTracks'') (\<lambda>mc_tracks.
     ebind (row_attr mc_tracks p ''type'') (\<lambda>particle_type.
     ebind (row_attr mc_tracks p ''energy'') (\<lambda>energy.
     ebind (row_attr mc_tracks p ''is_cc'') (\<lambda>is_cc.
     ebind (row_attr mc_tracks p ''bjorkeny'') (\<lambda>bjorkeny.
     ebind (row_attr mc_tracks p ''dir_x'') (\<lambda>dir_x.
     ebind (row_attr mc_tracks p ''dir_y'') (\<lambda>dir_y.
     ebind (row_attr mc_tracks p ''dir_z'') (\<lambda>dir_z.
     ebind (row_attr mc_tracks p ''time'') (\<lambda>time_interaction.
     ebind (row_attr mc_tracks p ''pos_x'') (\<lambda>vertex_pos_x.
     ebind (row_attr mc_tracks p ''pos_y'') (\<lambda>vertex_pos_y.
     ebind (row_attr mc_tracks p ''pos_z'') (\<lambda>vertex_pos_z.
     ebind (column_of event_hits 3) (\<lambda>hits_time.
     ebind (column_of event_hits 4) (\<lambda>triggered.
     ebind (get_time_residual_nu_interaction_mean_triggered_hits
              time_interaction hits_time triggered) (\<lambda>time_residual_vertex.
     Inr [event_id, particle_type, energy, is_cc, bjorkeny, dir_x, dir_y, dir_z,
          time_interaction, run_id, vertex_pos_x, vertex_pos_y, vertex_pos_z,
          time_residual_vertex]))))))))))))))))"

text \<open>
  \<open>get_tracks\<close>: the head, the branch on \<open>file_particle_type\<close>, the optional
  \<open>prod_ident\<close> appended, and the list as a \<open>float64\<close> array.
\<close>

definition get_tracks ::
  "(npfloat \<Rightarrow> npfloat) \<Rightarrow> blob \<Rightarrow> string \<Rightarrow> ndarray2 \<Rightarrow> int option \<Rightarrow> error + npfloat list"
where
  "get_tracks float32 event_blob file_particle_type event_hits prod_ident =
     ebind (event_and_run_id float32 event_blob) (\<lambda>(event_id, run_id).
     ebind (if file_particle_type = ''undefined'' then Inr [event_id, run_id, Num 0]
            else if file_particle_type = ''muon'' then muon_track event_blob event_id run_id
            else if file_particle_type = ''neutrino''
              then neutrino_track event_blob event_hits event_id run_id
            else Inl ValueError) (\<lambda>track.
     Inr (case prod_ident of
            None \<Rightarrow> track
          | Some ident \<Rightarrow> track @ [Num (real_of_int ident)])))"

text \<open>\<open>get_event_data\<close>: the hits, then the track.\<close>

definition get_event_data ::
  "(npfloat \<Rightarrow> npfloat) \<Rightarrow> blob \<Rightarrow> string \<Rightarrow> (table \<Rightarrow> table) option \<Rightarrow> bool
     \<Rightarrow> (string \<rightharpoonup> cut_value) \<Rightarrow> bool \<times> string \<Rightarrow> int option
     \<Rightarrow> table list \<times> (error + ndarray2 \<times> npfloat list)"
where
  "get_event_data float32 event_blob file_particle_type geo do_mc_hits data_cuts do4d prod_ident =
     (case get_hits event_blob geo do_mc_hits data_cuts do4d of
        (calls, Inl e) \<Rightarrow> (calls, Inl e)
      | (calls, Inr event_hits) \<Rightarrow>
          (calls, ebind (get_tracks float32 event_blob file_particle_type event_hits prod_ident)
                    (\<lambda>event_track. Inr (event_hits, event_track))))"

section \<open>Example events\<close>

text \<open>Concrete tables and blobs, on which the theorems below are instantiated.\<close>

definition record_of :: "(string \<times> real) list \<Rightarrow> np_record" where
  "record_of kvs name = (case map_of kvs name of None \<Rightarrow> NaN | Some x \<Rightarrow> Num x)"

definition track_names :: "string list" where
  "track_names = [''type'', ''energy'', ''is_cc'', ''bjorkeny'', ''dir_x'', ''dir_y'', ''dir_z'',
                  ''time'', ''pos_x'', ''pos_y'', ''pos_z'']"

text \<open>
  A neutrino event: row 0 is a secondary particle (\<open>bjorkeny = 0\<close>), row 1 the
  interacting neutrino.
\<close>

definition nu_tracks :: table where
  "nu_tracks = \<lparr>dtype_names = track_names,
     rows = [record_of (zip track_names [13, 40, 1, 0, 0, 0, 1, 2, 7, 8, 9]),
             record_of (zip track_names [14, 50, 1, 1 / 4, 0, 0, 1, 2, 1, 2, 3])]\<rparr>"

text \<open>A muon bundle: the empty neutrino track in row 0, two muons after it.\<close>

definition mu_tracks :: table where
  "mu_tracks = \<lparr>dtype_names = track_names,
     rows = [record_of (zip track_names [0, 0, 0, 0, 0, 0, 0, 0, 0, 0, 0]),
             record_of (zip track_names [- 13, 30, 1, 0, 0, 0, - 1, 5, 2, 4, 6]),
             record_of (zip track_names [- 13, 10, 1, 0, 0, 0, - 1, 5, 6, 8, 10])]\<rparr>"

definition hit_names :: "string list" where
  "hit_names = [''pos_x'', ''pos_y'', ''pos_z'', ''time'', ''triggered'', ''channel_id'']"

text \<open>Calibrated hits: the second of the three is not triggered.\<close>

definition cal_hits :: table where
  "cal_hits = \<lparr>dtype_names = hit_names,
     rows = [record_of (zip hit_names [1, 2, 3, 10, 1, 7]),
             record_of (zip hit_names [4, 5, 6, 30, 0, 8]),
             record_of (zip hit_names [7, 8, 9, 20, 1, 9])]\<rparr>"

text \<open>Hits without coordinates, as an uncalibrated file has them.\<close>

definition raw_hits :: table where
  "raw_hits = \<lparr>dtype_names = [''dom_id'', ''channel_id'', ''time'', ''triggered''],
     rows = [record_of [(''dom_id'', 2), (''channel_id'', 7), (''time'', 10), (''triggered'', 1)]]\<rparr>"

text \<open>A calibration that places every hit at its \<open>dom_id\<close> on all three axes.\<close>

definition dom_geo :: "table \<Rightarrow> table" where
  "dom_geo tab =
     \<lparr>dtype_names = dtype_names tab @ [''pos_x'', ''pos_y'', ''pos_z''],
      rows = map (\<lambda>r name. if name = ''pos_x'' \<or> name = ''pos_y'' \<or> name = ''pos_z''
                             then r ''dom_id'' else r name) (rows tab)\<rparr>"

definition event_info :: table where
  "event_info = \<lparr>dtype_names = [''event_id''], rows = [record_of [(''event_id'', 5)]]\<rparr>"

definition nu_blob :: blob where
  "nu_blob = [SKey ''EventInfo'' \<mapsto> TableV event_info, SKey ''Header'' \<mapsto> HeaderV (Num 100),
              SKey ''McTracks'' \<mapsto> TableV nu_tracks, SKey ''Hits'' \<mapsto> TableV cal_hits,
              SKey ''McHits'' \<mapsto> TableV raw_hits]"

definition mu_blob :: blob where
  "mu_blob = [SKey ''EventInfo'' \<mapsto> TableV event_info, SKey ''Header'' \<mapsto> HeaderV (Num 100),
              SKey ''McTracks'' \<mapsto> TableV mu_tracks, SKey ''Hits'' \<mapsto> TableV cal_hits]"

text \<open>A hit matrix without a triggered hit.\<close>

definition quiet_hits :: ndarray2 where
  "quiet_hits = \<lparr>ncols = 5, data = [[Num 1, Num 2, Num 3, Num 10, Num 0],
                                     [Num 4, Num 5, Num 6, Num 30, Num 0]]\<rparr>"

text \<open>The hit matrix of the three calibrated hits: the first and the third are triggered.\<close>

definition loud_hits :: ndarray2 where
  "loud_hits = \<lparr>ncols = 5, data = [[Num 1, Num 2, Num 3, Num 10, Num 1],
                                    [Num 4, Num 5, Num 6, Num 30, Num 0],
                                    [Num 7, Num 8, Num 9, Num 20, Num 1]]\<rparr>"

section \<open>Properties of the chunk partitioner\<close>

lemma concat_take_drop:
  assumes mono: "\<And>i. i < j \<Longrightarrow> f i \<le> f (Suc i)" and z: "f 0 = 0"
  shows "concat (map (\<lambda>i. take (f (Suc i) - f i) (drop (f i) a)) [0..<j]) = take (f j) a"
  using mono
proof (induction j)
  case 0
  then show ?case by (simp add: z)
next
  case (Suc j)
  have le: "f j \<le> f (Suc j)" using Suc.prems by simp
  have "take (f (Suc j)) a = take (f j) a @ take (f (Suc j) - f j) (drop (f j) a)"
    using le by (metis le_add_diff_inverse take_add)
  then show ?case using Suc by simp
qed

lemma chunk_start_le:
  assumes "i \<le> N" "0 < N"
  shows "chunk_start (L div N) (L mod N) i \<le> L"
proof -
  have "i * (L div N) \<le> N * (L div N)" using assms by (simp add: mult_le_mono1)
  moreover have "min i (L mod N) \<le> L mod N" by simp
  moreover have "L = N * (L div N) + L mod N" by simp
  ultimately show ?thesis unfolding chunk_start_def by linarith
qed

lemma chunk_start_step:
  "chunk_start k m (Suc i) - chunk_start k m i = (if i < m then k + 1 else k)"
  by (simp add: chunk_start_def min_def)

lemma chunk_start_mono: "chunk_start k m i \<le> chunk_start k m (Suc i)"
  by (simp add: chunk_start_def min_def)

text \<open>For a positive count, every slice of \<open>split\<close> has both bounds inside the list.\<close>

lemma split_Inr:
  assumes "1 \<le> n"
  shows "split a n =
     Inr (map (\<lambda>i. take (chunk_start (length a div nat n) (length a mod nat n) (Suc i)
                           - chunk_start (length a div nat n) (length a mod nat n) i)
                     (drop (chunk_start (length a div nat n) (length a mod nat n) i) a))
              [0..<nat n])"
proof -
  define N where "N = nat n"
  define k where "k = length a div N"
  define m where "m = length a mod N"
  have n: "n = int N" "0 < N" using assms by (auto simp: N_def)
  have kd: "int (length a) div int N = int k" by (simp add: k_def zdiv_int)
  have md: "int (length a) mod int N = int m" by (simp add: m_def zmod_int)
  have bound: "chunk_start k m i \<le> length a" if "i \<le> N" for i
    unfolding k_def m_def using that n(2) by (rule chunk_start_le)
  have idx: "int i * int k + min (int i) (int m) = int (chunk_start k m i)" for i
    by (simp add: chunk_start_def min_def)
  have sl: "py_slice a (int i * int k + min (int i) (int m))
                ((int i + 1) * int k + min (int i + 1) (int m))
      = take (chunk_start k m (Suc i) - chunk_start k m i) (drop (chunk_start k m i) a)"
    if "i < N" for i
  proof -
    have "(int i + 1) * int k + min (int i + 1) (int m) = int (chunk_start k m (Suc i))"
      using idx[of "Suc i"] by (simp add: algebra_simps)
    moreover have "chunk_start k m i \<le> length a" "chunk_start k m (Suc i) \<le> length a"
      using that bound by simp_all
    ultimately show ?thesis
      unfolding py_slice_def slice_bound_def idx by (simp add: Let_def min_def)
  qed
  show ?thesis
    unfolding split_def py_divmod_def py_range_def
    using sl by (simp add: n kd md N_def[symmetric] k_def[symmetric] m_def[symmetric] comp_def)
qed

lemma split_chunks:
  assumes "1 \<le> n"
  shows "\<exists>chunks. split a n = Inr chunks \<and> length chunks = nat n \<and> concat chunks = a
     \<and> (\<forall>i<nat n. length (chunks ! i) =
            (if i < length a mod nat n then length a div nat n + 1 else length a div nat n))"
proof -
  define N where "N = nat n"
  define k where "k = length a div N"
  define m where "m = length a mod N"
  define chunks where "chunks = map (\<lambda>i. take (chunk_start k m (Suc i) - chunk_start k m i)
                                   (drop (chunk_start k m i) a)) [0..<N]"
  have N: "0 < N" using assms by (simp add: N_def)
  have s: "split a n = Inr chunks"
    using split_Inr[OF assms, of a] by (simp add: chunks_def N_def k_def m_def)
  have len: "length chunks = N" by (simp add: chunks_def)
  have "m < N" using N by (simp add: m_def)
  then have full: "chunk_start k m N = length a"
    by (simp add: chunk_start_def k_def m_def min_def)
  have "concat chunks = take (chunk_start k m N) a"
    unfolding chunks_def
    by (rule concat_take_drop) (simp_all add: chunk_start_mono, simp add: chunk_start_def)
  then have cc: "concat chunks = a" by (simp add: full)
  have sz: "length (chunks ! i) = (if i < m then k + 1 else k)" if "i < N" for i
  proof -
    have "chunk_start k m (Suc i) \<le> length a"
      unfolding k_def m_def using that N by (intro chunk_start_le) simp_all
    then have "chunk_start k m (Suc i) - chunk_start k m i \<le> length a - chunk_start k m i"
      by simp
    then show ?thesis
      using that by (simp add: chunks_def chunk_start_step[symmetric])
  qed
  show ?thesis
    using s len cc sz by (auto simp: N_def k_def m_def)
qed

text \<open>
  Claim C1. For every list \<open>a\<close> and every chunk count \<open>n \<ge> 1\<close>, \<open>split\<close> computes
  \<open>k, m = divmod(len(a), n)\<close> and returns \<open>n\<close> chunks: the first \<open>m\<close> chunks have
  \<open>k + 1\<close> elements and the remaining \<open>n - m\<close> have \<open>k\<close>; the chunks concatenated in
  order are \<open>a\<close> again (so they are contiguous and in input order), any two chunk sizes
  differ by at most one, and the sizes add up to \<open>len(a)\<close>.
\<close>

theorem split_partition:
  assumes "1 \<le> n"
  shows "\<exists>k m chunks.
           py_divmod (int (length a)) n = Inr (k, m) \<and> 0 \<le> k \<and> 0 \<le> m \<and> m < n
         \<and> split a n = Inr chunks
         \<and> int (length chunks) = n
         \<and> (\<forall>i<length chunks. int (length (chunks ! i)) = (if int i < m then k + 1 else k))
         \<and> concat chunks = a
         \<and> (\<forall>i<length chunks. \<forall>j<length chunks.
               length (chunks ! i) \<le> length (chunks ! j) + 1)
         \<and> sum_list (map length chunks) = length a"
proof -
  define N where "N = nat n"
  have n: "n = int N" "0 < N" using assms by (auto simp: N_def)
  obtain chunks where c: "split a n = Inr chunks" "length chunks = N" "concat chunks = a"
    and sz: "\<And>i. i < N \<Longrightarrow> length (chunks ! i) =
            (if i < length a mod N then length a div N + 1 else length a div N)"
    using split_chunks[OF assms, of a] unfolding N_def by blast
  have dm: "py_divmod (int (length a)) n = Inr (int (length a div N), int (length a mod N))"
    using n by (simp add: py_divmod_def zdiv_int zmod_int)
  have szi: "int (length (chunks ! i)) =
      (if int i < int (length a mod N) then int (length a div N) + 1 else int (length a div N))"
    if "i < length chunks" for i
    using sz[of i] that c(2) by simp
  have diff: "length (chunks ! i) \<le> length (chunks ! j) + 1"
    if "i < length chunks" "j < length chunks" for i j
    using sz[of i] sz[of j] that c(2) by (simp split: if_splits)
  have total: "sum_list (map length chunks) = length a"
    using c(3) length_concat[of chunks] by simp
  show ?thesis
  proof (intro exI conjI)
    show "py_divmod (int (length a)) n = Inr (int (length a div N), int (length a mod N))"
      by (rule dm)
    show "0 \<le> int (length a div N)" "0 \<le> int (length a mod N)" by simp_all
    show "int (length a mod N) < n" using n by simp
    show "split a n = Inr chunks" by (rule c(1))
    show "int (length chunks) = n" using c(2) n(1) by simp
    show "\<forall>i<length chunks. int (length (chunks ! i)) =
        (if int i < int (length a mod N) then int (length a div N) + 1 else int (length a div N))"
      using szi by blast
    show "concat chunks = a" by (rule c(3))
    show "\<forall>i<length chunks. \<forall>j<length chunks.
        length (chunks ! i) \<le> length (chunks ! j) + 1"
      using diff by blast
    show "sum_list (map length chunks) = length a" by (rule total)
  qed
qed

theorem split_partition_witness:
  "(1::int) \<le> 3 \<and> py_divmod (int (length [10::nat, 20, 30, 40, 50, 60, 70])) 3 = Inr (2, 1)
   \<and> split [10::nat, 20, 30, 40, 50, 60, 70] 3 = Inr [[10, 20, 30], [40, 50], [60, 70]]
   \<and> (\<exists>k m chunks.
           py_divmod (int (length [10::nat, 20, 30, 40, 50, 60, 70])) 3 = Inr (k, m)
         \<and> 0 \<le> k \<and> 0 \<le> m \<and> m < 3
         \<and> split [10::nat, 20, 30, 40, 50, 60, 70] 3 = Inr chunks
         \<and> int (length chunks) = 3
         \<and> concat chunks = [10, 20, 30, 40, 50, 60, 70]
         \<and> sum_list (map length chunks) = length [10::nat, 20, 30, 40, 50, 60, 70])"
proof -
  have h: "(1::int) \<le> 3" by simp
  have e: "split [10::nat, 20, 30, 40, 50, 60, 70] 3 = Inr [[10, 20, 30], [40, 50], [60, 70]]"
    by (simp add: split_def py_divmod_def py_range_def py_slice_def slice_bound_def
        upt_conv_Cons)
  from split_partition[OF h, of "[10::nat, 20, 30, 40, 50, 60, 70]"]
  obtain k m chunks where
    "py_divmod (int (length [10::nat, 20, 30, 40, 50, 60, 70])) 3 = Inr (k, m)"
    "0 \<le> k" "0 \<le> m" "m < 3"
    "split [10::nat, 20, 30, 40, 50, 60, 70] 3 = Inr chunks"
    "int (length chunks) = 3"
    "concat chunks = [10, 20, 30, 40, 50, 60, 70]"
    "sum_list (map length chunks) = length [10::nat, 20, 30, 40, 50, 60, 70]"
    by blast
  then have ex: "\<exists>k m chunks.
           py_divmod (int (length [10::nat, 20, 30, 40, 50, 60, 70])) 3 = Inr (k, m)
         \<and> 0 \<le> k \<and> 0 \<le> m \<and> m < 3
         \<and> split [10::nat, 20, 30, 40, 50, 60, 70] 3 = Inr chunks
         \<and> int (length chunks) = 3
         \<and> concat chunks = [10, 20, 30, 40, 50, 60, 70]
         \<and> sum_list (map length chunks) = length [10::nat, 20, 30, 40, 50, 60, 70]"
    by blast
  have d: "py_divmod (int (length [10::nat, 20, 30, 40, 50, 60, 70])) 3 = Inr (2, 1)"
    by (simp add: py_divmod_def)
  show ?thesis using h d e ex by blast
qed

text \<open>
  Claim C9. For every list \<open>a\<close> and every chunk count \<open>n \<ge> 1\<close>, \<open>split\<close> returns
  exactly \<open>n\<close> chunks whose concatenation is \<open>a\<close>, also when \<open>n\<close> exceeds \<open>len(a)\<close>;
  in that case each of the first \<open>len(a)\<close> chunks holds one element and the remaining
  \<open>n - len(a)\<close> chunks are empty.
\<close>

theorem split_more_chunks_than_elements:
  assumes "1 \<le> n"
  shows "\<exists>chunks. split a n = Inr chunks \<and> int (length chunks) = n \<and> concat chunks = a
     \<and> (int (length a) < n \<longrightarrow>
          (\<forall>i<length a. chunks ! i = [a ! i])
        \<and> (\<forall>i. length a \<le> i \<and> i < length chunks \<longrightarrow> chunks ! i = []))"
proof -
  define N where "N = nat n"
  define k where "k = length a div N"
  define m where "m = length a mod N"
  define chunks where "chunks = map (\<lambda>i. take (chunk_start k m (Suc i) - chunk_start k m i)
                                   (drop (chunk_start k m i) a)) [0..<N]"
  have n: "n = int N" "0 < N" using assms by (auto simp: N_def)
  have s: "split a n = Inr chunks"
    using split_Inr[OF assms, of a] by (simp add: chunks_def N_def k_def m_def)
  have len: "int (length chunks) = n" using n by (simp add: chunks_def)
  have cc: "concat chunks = a"
    using split_chunks[OF assms, of a] s by auto
  have small: "(\<forall>i<length a. chunks ! i = [a ! i])
        \<and> (\<forall>i. length a \<le> i \<and> i < length chunks \<longrightarrow> chunks ! i = [])"
    if lt: "int (length a) < n"
  proof -
    have "length a < N" using lt n by simp
    then have km: "k = 0" "m = length a" by (simp_all add: k_def m_def)
    have one: "chunks ! i = [a ! i]" if "i < length a" for i
    proof -
      have "i < N" using that \<open>length a < N\<close> by simp
      then have "chunks ! i = take 1 (drop i a)"
        using that by (simp add: chunks_def km chunk_start_def min_def)
      also have "\<dots> = [a ! i]"
        using that by (simp add: take_Suc_conv_app_nth)
      finally show ?thesis .
    qed
    have none: "chunks ! i = []" if "length a \<le> i" "i < length chunks" for i
      using that by (simp add: chunks_def km chunk_start_def min_def)
    show ?thesis using one none by blast
  qed
  show ?thesis using s len cc small by blast
qed

theorem split_more_chunks_than_elements_witness:
  "(1::int) \<le> 4 \<and> int (length ''ab'') < 4
   \<and> split ''ab'' 4 = Inr [''a'', ''b'', [], []]
   \<and> (\<exists>chunks. split ''ab'' 4 = Inr chunks \<and> int (length chunks) = 4
         \<and> concat chunks = ''ab''
         \<and> chunks ! 0 = [''ab'' ! 0] \<and> chunks ! 1 = [''ab'' ! 1]
         \<and> chunks ! 2 = [] \<and> chunks ! 3 = [])"
proof -
  have h: "(1::int) \<le> 4" by simp
  have e: "split ''ab'' 4 = Inr [''a'', ''b'', [], []]"
    by (simp add: split_def py_divmod_def py_range_def py_slice_def slice_bound_def
        upt_conv_Cons)
  from split_more_chunks_than_elements[OF h, of "''ab''"]
  obtain chunks where c: "split ''ab'' 4 = Inr chunks" "int (length chunks) = 4"
      "concat chunks = ''ab''"
    and sm: "int (length ''ab'') < 4 \<longrightarrow>
          (\<forall>i<length ''ab''. chunks ! i = [''ab'' ! i])
        \<and> (\<forall>i. length ''ab'' \<le> i \<and> i < length chunks \<longrightarrow> chunks ! i = [])"
    by blast
  have l: "length chunks = 4" using c(2) by simp
  have "chunks ! 0 = [''ab'' ! 0]" "chunks ! 1 = [''ab'' ! 1]" using sm by simp_all
  moreover have "chunks ! 2 = []" "chunks ! 3 = []" using sm l by simp_all
  ultimately show ?thesis using h e c by auto
qed

text \<open>
  Claim C3, as the code has it. A chunk count of zero makes the \<open>divmod\<close> on the first
  line of \<open>split\<close> raise \<open>ZeroDivisionError\<close>, so no chunk is produced. A negative
  count raises nothing: the division succeeds, \<open>range(n)\<close> is empty, and the result is
  the empty list of chunks.
\<close>

theorem split_nonpositive_count:
  "py_divmod (int (length a)) 0 = Inl ZeroDivisionError
   \<and> split a 0 = Inl ZeroDivisionError
   \<and> (n < 0 \<longrightarrow> split a n = Inr [])"
  by (simp add: split_def py_divmod_def py_range_def)

theorem split_nonpositive_count_witness:
  "split [7::nat, 8, 9] 0 = Inl ZeroDivisionError
   \<and> (- 2::int) < 0 \<and> split [7::nat, 8, 9] (- 2) = Inr []"
  using split_nonpositive_count[of "[7::nat, 8, 9]" "- 2"] by simp

text \<open>
  The claim as the specification states it (every count \<open>N \<le> 0\<close> fails) does not hold:
  a negative count returns normally.
\<close>

theorem split_negative_count_counterexample:
  "(- 2::int) \<le> 0 \<and> split [7::nat, 8, 9] (- 2) = Inr []
   \<and> split [7::nat, 8, 9] (- 2) \<noteq> Inl ZeroDivisionError"
  by (simp add: split_def py_divmod_def py_range_def)

section \<open>Properties of the file inventory\<close>

text \<open>
  The loop over files that can all be read: \<open>contents\<close> lists, file by file, the dataset
  and the run id of its first row.
\<close>

lemma collect_files_readable:
  assumes "list_all2 (\<lambda>fpath (dset, run_id). \<exists>f first_row rest.
              store fpath = Some f \<and> f dataset_key = Some dset \<and> dset = first_row # rest
              \<and> first_row run_id_col_name = Some run_id) files contents"
  shows "collect_files store dataset_key run_id_col_name files n_evts run_ids
         = Inr (n_evts + sum_list (map (\<lambda>(dset, run_id). int (length dset)) contents),
                run_ids @ map snd contents)"
  using assms
proof (induction files contents arbitrary: n_evts run_ids rule: list_all2_induct)
  case Nil
  then show ?case by simp
next
  case (Cons fpath files c contents)
  obtain dset run_id where c: "c = (dset, run_id)" by (cases c)
  from Cons.hyps(1) c obtain f first_row rest where
    "store fpath = Some f" "f dataset_key = Some dset" "dset = first_row # rest"
    "first_row run_id_col_name = Some run_id"
    by auto
  then show ?case
    using Cons.IH[of "n_evts + int (length dset)" "run_ids @ [run_id]"] c
    by (simp add: algebra_simps)
qed

text \<open>
  Claim C8, as the code has it. For an empty file list the loop runs no iteration and
  the division of the total event count by the number of files raises
  \<open>ZeroDivisionError\<close>: the collector returns no mean. For a non-empty list whose files
  can all be read the division succeeds: the collector returns the total of the row
  counts, that total divided by the number of files, and the run ids of the first rows.
\<close>

theorem inventory_mean_division:
  "get_number_of_evts_and_run_ids store [] dataset_key run_id_col_name = Inl ZeroDivisionError
   \<and> (list_of_files \<noteq> []
        \<and> list_all2 (\<lambda>fpath (dset, run_id). \<exists>f first_row rest.
              store fpath = Some f \<and> f dataset_key = Some dset \<and> dset = first_row # rest
              \<and> first_row run_id_col_name = Some run_id) list_of_files contents
      \<longrightarrow> get_number_of_evts_and_run_ids store list_of_files dataset_key run_id_col_name
            = Inr (sum_list (map (\<lambda>(dset, run_id). int (length dset)) contents),
                   real_of_int (sum_list (map (\<lambda>(dset, run_id). int (length dset)) contents))
                     / real (length list_of_files),
                   map snd contents))"
proof -
  have empty: "get_number_of_evts_and_run_ids store [] dataset_key run_id_col_name
               = Inl ZeroDivisionError"
    by (simp add: get_number_of_evts_and_run_ids_def py_truediv_def)
  have full: "get_number_of_evts_and_run_ids store list_of_files dataset_key run_id_col_name
            = Inr (sum_list (map (\<lambda>(dset, run_id). int (length dset)) contents),
                   real_of_int (sum_list (map (\<lambda>(dset, run_id). int (length dset)) contents))
                     / real (length list_of_files),
                   map snd contents)"
    if ne: "list_of_files \<noteq> []"
      and rd: "list_all2 (\<lambda>fpath (dset, run_id). \<exists>f first_row rest.
              store fpath = Some f \<and> f dataset_key = Some dset \<and> dset = first_row # rest
              \<and> first_row run_id_col_name = Some run_id) list_of_files contents"
    using ne collect_files_readable[OF rd, of 0 "[]"]
    by (simp add: get_number_of_evts_and_run_ids_def py_truediv_def)
  show ?thesis using empty full by blast
qed

theorem inventory_mean_division_witness:
  "get_number_of_evts_and_run_ids
      [''a.h5'' \<mapsto> [''y'' \<mapsto> [[''run_id'' \<mapsto> (3::nat)], [''run_id'' \<mapsto> 3]]],
       ''b.h5'' \<mapsto> [''y'' \<mapsto> [[''run_id'' \<mapsto> 4]]]]
      [] ''y'' ''run_id'' = Inl ZeroDivisionError
   \<and> [''a.h5'', ''b.h5''] \<noteq> []
   \<and> get_number_of_evts_and_run_ids
      [''a.h5'' \<mapsto> [''y'' \<mapsto> [[''run_id'' \<mapsto> (3::nat)], [''run_id'' \<mapsto> 3]]],
       ''b.h5'' \<mapsto> [''y'' \<mapsto> [[''run_id'' \<mapsto> 4]]]]
      [''a.h5'', ''b.h5''] ''y'' ''run_id'' = Inr (3, 3 / 2, [3, 4])"
proof -
  let ?store = "[''a.h5'' \<mapsto> [''y'' \<mapsto> [[''run_id'' \<mapsto> (3::nat)], [''run_id'' \<mapsto> 3]]],
       ''b.h5'' \<mapsto> [''y'' \<mapsto> [[''run_id'' \<mapsto> 4]]]]"
  let ?contents = "[([[''run_id'' \<mapsto> (3::nat)], [''run_id'' \<mapsto> 3]], 3::nat),
                    ([[''run_id'' \<mapsto> 4]], 4)]"
  have rd: "list_all2 (\<lambda>fpath (dset, run_id). \<exists>f first_row rest.
              ?store fpath = Some f \<and> f ''y'' = Some dset \<and> dset = first_row # rest
              \<and> first_row ''run_id'' = Some run_id) [''a.h5'', ''b.h5''] ?contents"
    by simp
  have ne: "[''a.h5'', ''b.h5''] \<noteq> []" by simp
  show ?thesis
    using inventory_mean_division[of ?store "''y''" "''run_id''" "[''a.h5'', ''b.h5'']" ?contents]
      rd ne
    by simp
qed

text \<open>
  The claim as the specification states it (an empty file list degrades silently) does
  not hold: the collector raises.
\<close>

theorem inventory_empty_list_counterexample:
  "get_number_of_evts_and_run_ids (Map.empty :: nat h5store) [] ''y'' ''run_id''
     = Inl ZeroDivisionError"
  by (simp add: get_number_of_evts_and_run_ids_def py_truediv_def)

section \<open>Properties of the event record extractor\<close>

subsection \<open>Auxiliary facts\<close>

lemma ebind_Inr_iff:
  "ebind m f = Inr y \<longleftrightarrow> (\<exists>x. m = Inr x \<and> f x = Inr y)"
  by (cases m) simp_all

lemma filter_upt_first:
  assumes "filter P [0..<n] = p # rest"
  shows "p < n \<and> P p \<and> (\<forall>j<p. \<not> P j)"
proof -
  have mem: "p \<in> set (filter P [0..<n])" using assms by simp
  then have 1: "p < n" "P p" by simp_all
  have srt: "sorted (filter P [0..<n])" by (simp add: sorted_wrt_filter)
  have "\<not> P j" if "j < p" for j
  proof
    assume "P j"
    then have "j \<in> set (filter P [0..<n])" using that 1 by simp
    then have "j \<in> set (p # rest)" using assms by simp
    then have "p \<le> j" using srt assms by auto
    then show False using that by simp
  qed
  then show ?thesis using 1 by blast
qed

lemma index_0_Inr: "index xs 0 = Inr p \<longleftrightarrow> (\<exists>rest. xs = p # rest)"
  by (cases xs) (simp_all add: index_def)

lemma index_0_Inl: "index xs 0 = Inl e \<longleftrightarrow> xs = [] \<and> e = IndexError"
  by (cases xs) (auto simp: index_def)

lemma index_np_where_Inr:
  assumes "index (np_where cond) 0 = Inr p"
  shows "p < length cond \<and> cond ! p \<and> (\<forall>j<p. \<not> cond ! j)"
proof -
  obtain rest where "filter (\<lambda>i. cond ! i) [0..<length cond] = p # rest"
    using assms unfolding index_0_Inr np_where_def by blast
  then show ?thesis by (rule filter_upt_first)
qed

lemma index_np_where_Inl:
  assumes "index (np_where cond) 0 = Inl e"
  shows "e = IndexError \<and> (\<forall>j<length cond. \<not> cond ! j)"
proof -
  have "filter (\<lambda>i. cond ! i) [0..<length cond] = []" "e = IndexError"
    using assms unfolding index_0_Inl np_where_def by simp_all
  then show ?thesis by (simp add: filter_empty_conv)
qed

lemma get_table_TableV:
  "d (SKey name) = Some (TableV tab) \<Longrightarrow> get_table d name = Inr tab"
  by (simp add: get_table_def getitem_def)

lemma row_attr_Inr_iff:
  "row_attr tab i name = Inr x \<longleftrightarrow>
     i < length (rows tab) \<and> name \<in> set (dtype_names tab) \<and> x = (rows tab ! i) name"
  by (auto simp: row_attr_def)

lemma primary_index_eq:
  assumes "event_blob (SKey ''McTracks'') = Some (TableV mc_tracks)"
      and "''bjorkeny'' \<in> set (dtype_names mc_tracks)"
  shows "get_primary_track_index event_blob
         = index (np_where (map (\<lambda>r. r ''bjorkeny'' \<noteq> Num 0) (rows mc_tracks))) 0"
  using assms
  by (simp add: get_primary_track_index_def get_table_TableV attr_def comp_def)

lemma bool_index_columns:
  "bool_index (map f rs) (map (\<lambda>r. P (g r)) rs) = Inr (map f (filter (\<lambda>r. P (g r)) rs))"
proof -
  have "map snd (filter fst (zip (map (\<lambda>r. P (g r)) rs) (map f rs)))
        = map f (filter (\<lambda>r. P (g r)) rs)"
    by (induction rs) simp_all
  then show ?thesis by (simp add: bool_index_def)
qed

lemma neutrino_track_Inr:
  assumes nt: "neutrino_track event_blob event_hits event_id run_id = Inr track"
      and mc: "event_blob (SKey ''McTracks'') = Some (TableV mc_tracks)"
  shows "\<exists>p. get_primary_track_index event_blob = Inr p \<and> p < length (rows mc_tracks)
       \<and> 5 \<le> ncols event_hits
       \<and> track = [event_id, (rows mc_tracks ! p) ''type'', (rows mc_tracks ! p) ''energy'',
                  (rows mc_tracks ! p) ''is_cc'', (rows mc_tracks ! p) ''bjorkeny'',
                  (rows mc_tracks ! p) ''dir_x'', (rows mc_tracks ! p) ''dir_y'',
                  (rows mc_tracks ! p) ''dir_z'', (rows mc_tracks ! p) ''time'', run_id,
                  (rows mc_tracks ! p) ''pos_x'', (rows mc_tracks ! p) ''pos_y'',
                  (rows mc_tracks ! p) ''pos_z'',
                  np_sub (np_mean (map (\<lambda>r. r ! 3) (filter (\<lambda>r. r ! 4 = Num 1) (data event_hits))))
                         ((rows mc_tracks ! p) ''time'')]"
proof -
  have gt: "get_table event_blob ''McTracks'' = Inr mc_tracks"
    using mc by (rule get_table_TableV)
  show ?thesis
  using nt
  unfolding neutrino_track_def gt
    get_time_residual_nu_interaction_mean_triggered_hits_def
  by (auto simp: ebind_Inr_iff row_attr_Inr_iff column_of_def comp_def
        bool_index_columns[where P="\<lambda>t. t = Num 1"] split: if_splits)
qed

lemma primary_index_in_range:
  assumes "get_primary_track_index event_blob = Inr p"
      and "event_blob (SKey ''McTracks'') = Some (TableV mc_tracks)"
      and "''bjorkeny'' \<in> set (dtype_names mc_tracks)"
  shows "p < length (rows mc_tracks) \<and> (rows mc_tracks ! p) ''bjorkeny'' \<noteq> Num 0
       \<and> (\<forall>j<p. (rows mc_tracks ! j) ''bjorkeny'' = Num 0)"
proof -
  let ?cond = "map (\<lambda>r. r ''bjorkeny'' \<noteq> Num 0) (rows mc_tracks)"
  have "index (np_where ?cond) 0 = Inr p"
    using assms by (simp add: primary_index_eq)
  from index_np_where_Inr[OF this]
  have 1: "p < length (rows mc_tracks)" and 2: "?cond ! p" and 3: "\<And>j. j < p \<Longrightarrow> \<not> ?cond ! j"
    by auto
  have "(rows mc_tracks ! p) ''bjorkeny'' \<noteq> Num 0" using 1 2 by simp
  moreover have "(rows mc_tracks ! j) ''bjorkeny'' = Num 0" if "j < p" for j
    using 3[OF that] that 1 by simp
  ultimately show ?thesis using 1 by blast
qed

lemma primary_index_none:
  assumes "event_blob (SKey ''McTracks'') = Some (TableV mc_tracks)"
      and "''bjorkeny'' \<in> set (dtype_names mc_tracks)"
  shows "get_primary_track_index event_blob = Inl IndexError
         \<longleftrightarrow> (\<forall>r\<in>set (rows mc_tracks). r ''bjorkeny'' = Num 0)"
proof -
  let ?cond = "map (\<lambda>r. r ''bjorkeny'' \<noteq> Num 0) (rows mc_tracks)"
  have eq: "get_primary_track_index event_blob = index (np_where ?cond) 0"
    using assms by (rule primary_index_eq)
  have "np_where ?cond = [] \<longleftrightarrow> (\<forall>r\<in>set (rows mc_tracks). r ''bjorkeny'' = Num 0)"
    by (auto simp: np_where_def filter_empty_conv all_set_conv_all_nth)
  then show ?thesis unfolding eq index_0_Inl by simp
qed

lemma get_tracks_neutrino:
  "get_tracks float32 event_blob ''neutrino'' event_hits prod_ident =
     ebind (event_and_run_id float32 event_blob) (\<lambda>(event_id, run_id).
     ebind (neutrino_track event_blob event_hits event_id run_id) (\<lambda>track.
     Inr (case prod_ident of None \<Rightarrow> track | Some ident \<Rightarrow> track @ [Num (real_of_int ident)])))"
  by (simp add: get_tracks_def)

lemma get_tracks_muon:
  "get_tracks float32 event_blob ''muon'' event_hits prod_ident =
     ebind (event_and_run_id float32 event_blob) (\<lambda>(event_id, run_id).
     ebind (muon_track event_blob event_id run_id) (\<lambda>track.
     Inr (case prod_ident of None \<Rightarrow> track | Some ident \<Rightarrow> track @ [Num (real_of_int ident)])))"
  by (simp add: get_tracks_def)

lemma neutrino_track_no_primary:
  "get_primary_track_index event_blob = Inl e \<Longrightarrow>
     neutrino_track event_blob event_hits event_id run_id = Inl e"
  by (simp add: neutrino_track_def)

lemma neutrino_track_ok:
  assumes p: "get_primary_track_index event_blob = Inr p"
      and mc: "event_blob (SKey ''McTracks'') = Some (TableV mc_tracks)"
      and names: "set [''type'', ''energy'', ''is_cc'', ''bjorkeny'', ''dir_x'', ''dir_y'', ''dir_z'',
                        ''time'', ''pos_x'', ''pos_y'', ''pos_z''] \<subseteq> set (dtype_names mc_tracks)"
      and cols: "5 \<le> ncols event_hits"
  shows "neutrino_track event_blob event_hits event_id run_id =
     Inr [event_id, (rows mc_tracks ! p) ''type'', (rows mc_tracks ! p) ''energy'',
          (rows mc_tracks ! p) ''is_cc'', (rows mc_tracks ! p) ''bjorkeny'',
          (rows mc_tracks ! p) ''dir_x'', (rows mc_tracks ! p) ''dir_y'',
          (rows mc_tracks ! p) ''dir_z'', (rows mc_tracks ! p) ''time'', run_id,
          (rows mc_tracks ! p) ''pos_x'', (rows mc_tracks ! p) ''pos_y'',
          (rows mc_tracks ! p) ''pos_z'',
          np_sub (np_mean (map (\<lambda>r. r ! 3) (filter (\<lambda>r. r ! 4 = Num 1) (data event_hits))))
                 ((rows mc_tracks ! p) ''time'')]"
proof -
  have gt: "get_table event_blob ''McTracks'' = Inr mc_tracks"
    using mc by (rule get_table_TableV)
  have bj: "''bjorkeny'' \<in> set (dtype_names mc_tracks)" using names by simp
  have pl: "p < length (rows mc_tracks)"
    using primary_index_in_range[of event_blob p mc_tracks, OF p mc bj] by simp
  have ra: "row_attr mc_tracks p name = Inr ((rows mc_tracks ! p) name)"
    if "name \<in> set (dtype_names mc_tracks)" for name
    using that pl by (simp add: row_attr_def)
  show ?thesis
    unfolding neutrino_track_def p gt get_time_residual_nu_interaction_mean_triggered_hits_def
    using names cols
    by (simp add: ra column_of_def comp_def bool_index_columns[where P="\<lambda>t. t = Num 1"])
qed

lemma np_sub_NaN: "np_sub NaN t = NaN"
  by (simp add: np_sub_def)

lemma ebind_InrE:
  assumes "ebind m f = Inr y"
  obtains x where "m = Inr x" "f x = Inr y"
  using assms by (cases m) simp_all





lemma assemble_hits_cut:
  assumes "data_cuts ''triggered'' = Some (BoolV True)"
  shows "assemble_hits hits data_cuts do4d
         = (if ''triggered'' \<in> set (dtype_names hits) then Inl TypeError else Inl AttributeError)"
  using assms by (simp add: assemble_hits_def subscript_array_method_def attr_def)


lemma get_hits_Inr:
  assumes "get_hits event_blob geo do_mc_hits data_cuts do4d = (calls, Inr event_hits)"
  shows "\<exists>hits. assemble_hits hits data_cuts do4d = Inr event_hits"
  using assms unfolding get_hits_def
  by (auto split: sum.splits option.splits if_splits)

lemma muon_track_KeyError:
  assumes mc: "event_blob (SKey ''McTracks'') = Some (TableV mc_tracks)"
      and two: "2 \<le> length (rows mc_tracks)"
      and names: "set [''type'', ''energy'', ''is_cc'', ''bjorkeny'', ''dir_x'', ''dir_y'', ''dir_z'',
                        ''time'', ''pos_x'', ''pos_y'', ''pos_z''] \<subseteq> set (dtype_names mc_tracks)"
      and no4: "event_blob (IKey 4) = None"
  shows "muon_track event_blob event_id run_id = Inl KeyError"
proof -
  have gt: "get_table event_blob ''McTracks'' = Inr mc_tracks"
    using mc by (rule get_table_TableV)
  have ra: "row_attr mc_tracks (Suc 0) name = Inr ((rows mc_tracks ! Suc 0) name)"
    if "name \<in> set (dtype_names mc_tracks)" for name
    using that two by (simp add: row_attr_def)
  have w: "vertex_weights event_blob = Inl KeyError"
    using no4 by (simp add: vertex_weights_def getitem_def)
  show ?thesis
    unfolding muon_track_def gt using names
    by (simp add: ra attr_def rows_from_def w)
qed

subsection \<open>The example events, evaluated\<close>

lemmas example_defs = nu_blob_def mu_blob_def nu_tracks_def mu_tracks_def cal_hits_def raw_hits_def
  hit_names_def track_names_def event_info_def record_of_def quiet_hits_def dom_geo_def

lemmas table_defs = get_table_def getitem_def attr_def row_attr_def index_def rows_from_def
  first_item_def column_of_def bool_index_def np_where_def np_truthy_def subscript_array_method_def
  concatenate_axis1_def newaxis_def

lemma nu_blob_ids: "event_and_run_id (\<lambda>x. x) nu_blob = Inr (Num 5, Num 100)"
  by (simp add: event_and_run_id_def nu_blob_def get_table_def getitem_def attr_def
      event_info_def index_def record_of_def)

lemma nu_blob_primary: "get_primary_track_index nu_blob = Inr 1"
  by (simp add: get_primary_track_index_def nu_blob_def get_table_def getitem_def attr_def
      nu_tracks_def track_names_def record_of_def np_where_def index_def upt_conv_Cons)

lemma mu_blob_ids: "event_and_run_id (\<lambda>x. x) mu_blob = Inr (Num 5, Num 100)"
  by (simp add: event_and_run_id_def table_defs example_defs)

lemma nu_blob_tracks: "nu_blob (SKey ''McTracks'') = Some (TableV nu_tracks)"
  by (simp add: nu_blob_def)

lemma mu_blob_tracks: "mu_blob (SKey ''McTracks'') = Some (TableV mu_tracks)"
  by (simp add: mu_blob_def)

lemma nu_tracks_names:
  "set [''type'', ''energy'', ''is_cc'', ''bjorkeny'', ''dir_x'', ''dir_y'', ''dir_z'',
        ''time'', ''pos_x'', ''pos_y'', ''pos_z''] \<subseteq> set (dtype_names nu_tracks)"
  by (simp add: nu_tracks_def track_names_def)

lemma mu_tracks_names:
  "set [''type'', ''energy'', ''is_cc'', ''bjorkeny'', ''dir_x'', ''dir_y'', ''dir_z'',
        ''time'', ''pos_x'', ''pos_y'', ''pos_z''] \<subseteq> set (dtype_names mu_tracks)"
  by (simp add: mu_tracks_def track_names_def)



lemma get_hits_triggered_only:
  "get_hits nu_blob None False [''triggered'' \<mapsto> BoolV True] (False, ''time'')
   = ([], Inl TypeError)"
  by (simp add: get_hits_def assemble_hits_def table_defs example_defs)

subsection \<open>The primary track of a neutrino event\<close>

text \<open>
  Claim C2. For a neutrino event whose \<open>McTracks\<close> table has the \<open>bjorkeny\<close> field:
  the index \<open>get_primary_track_index\<close> returns is that of a row with
  \<open>bjorkeny \<noteq> 0\<close>, and every row before it has \<open>bjorkeny = 0\<close> (it is the lowest such
  index); an index is returned whenever some row has a nonzero \<open>bjorkeny\<close>; the
  \<open>bjorkeny\<close> entry of a track vector that \<open>get_tracks\<close> returns is that of the
  selected row and is not zero; and when no row has a nonzero \<open>bjorkeny\<close>, the index
  lookup fails with \<open>IndexError\<close> (the specification's \<open>PrimaryNotFoundError\<close>), and
  so does \<open>get_tracks\<close> instead of returning a vector.
\<close>

theorem neutrino_primary_track:
  assumes mc: "event_blob (SKey ''McTracks'') = Some (TableV mc_tracks)"
      and bj: "''bjorkeny'' \<in> set (dtype_names mc_tracks)"
  shows "(\<forall>p. get_primary_track_index event_blob = Inr p \<longrightarrow>
            p < length (rows mc_tracks) \<and> (rows mc_tracks ! p) ''bjorkeny'' \<noteq> Num 0
          \<and> (\<forall>j<p. (rows mc_tracks ! j) ''bjorkeny'' = Num 0))
       \<and> ((\<exists>r\<in>set (rows mc_tracks). r ''bjorkeny'' \<noteq> Num 0) \<longrightarrow>
            (\<exists>p. get_primary_track_index event_blob = Inr p))
       \<and> (\<forall>v. get_tracks float32 event_blob ''neutrino'' event_hits prod_ident = Inr v \<longrightarrow>
            (\<exists>p. get_primary_track_index event_blob = Inr p \<and> 4 < length v
                 \<and> v ! 4 = (rows mc_tracks ! p) ''bjorkeny'' \<and> v ! 4 \<noteq> Num 0))
       \<and> ((\<forall>r\<in>set (rows mc_tracks). r ''bjorkeny'' = Num 0) \<longrightarrow>
            get_primary_track_index event_blob = Inl IndexError
          \<and> (\<exists>e. get_tracks float32 event_blob ''neutrino'' event_hits prod_ident = Inl e)
          \<and> (\<forall>ids. event_and_run_id float32 event_blob = Inr ids \<longrightarrow>
                get_tracks float32 event_blob ''neutrino'' event_hits prod_ident = Inl IndexError))"
proof -
  have c1: "p < length (rows mc_tracks) \<and> (rows mc_tracks ! p) ''bjorkeny'' \<noteq> Num 0
          \<and> (\<forall>j<p. (rows mc_tracks ! j) ''bjorkeny'' = Num 0)"
    if "get_primary_track_index event_blob = Inr p" for p
    using primary_index_in_range[of event_blob p mc_tracks, OF that mc bj] .
  have c2: "\<exists>p. get_primary_track_index event_blob = Inr p"
    if ex: "\<exists>r\<in>set (rows mc_tracks). r ''bjorkeny'' \<noteq> Num 0"
  proof (cases "get_primary_track_index event_blob")
    case (Inl e)
    then have "e = IndexError"
      using index_np_where_Inl primary_index_eq[of event_blob mc_tracks, OF mc bj] by metis
    then show ?thesis
      using Inl ex primary_index_none[of event_blob mc_tracks, OF mc bj] by blast
  next
    case (Inr p)
    then show ?thesis by blast
  qed
  have c3: "\<exists>p. get_primary_track_index event_blob = Inr p \<and> 4 < length v
                 \<and> v ! 4 = (rows mc_tracks ! p) ''bjorkeny'' \<and> v ! 4 \<noteq> Num 0"
    if gt: "get_tracks float32 event_blob ''neutrino'' event_hits prod_ident = Inr v" for v
  proof -
    obtain event_id run_id track where
      nt: "neutrino_track event_blob event_hits event_id run_id = Inr track"
      and v: "v = (case prod_ident of None \<Rightarrow> track
                   | Some ident \<Rightarrow> track @ [Num (real_of_int ident)])"
      using gt unfolding get_tracks_neutrino by (auto simp: ebind_Inr_iff)
    from neutrino_track_Inr[of event_blob event_hits event_id run_id track mc_tracks, OF nt mc]
    obtain p where
      p: "get_primary_track_index event_blob = Inr p"
      and len: "length track = 14" and t4: "track ! 4 = (rows mc_tracks ! p) ''bjorkeny''"
      by auto
    have "v ! 4 = track ! 4" "4 < length v"
      using v len by (simp_all add: nth_append split: option.splits)
    moreover have "(rows mc_tracks ! p) ''bjorkeny'' \<noteq> Num 0"
      using primary_index_in_range[of event_blob p mc_tracks, OF p mc bj] by simp
    ultimately show ?thesis using p t4 by auto
  qed
  have c4: "get_primary_track_index event_blob = Inl IndexError
          \<and> (\<exists>e. get_tracks float32 event_blob ''neutrino'' event_hits prod_ident = Inl e)
          \<and> (\<forall>ids. event_and_run_id float32 event_blob = Inr ids \<longrightarrow>
                get_tracks float32 event_blob ''neutrino'' event_hits prod_ident = Inl IndexError)"
    if z: "\<forall>r\<in>set (rows mc_tracks). r ''bjorkeny'' = Num 0"
  proof -
    have none: "get_primary_track_index event_blob = Inl IndexError"
      using z primary_index_none[of event_blob mc_tracks, OF mc bj] by simp
    have nt: "neutrino_track event_blob event_hits event_id run_id = Inl IndexError"
      for event_id run_id
      using none by (rule neutrino_track_no_primary)
    have "\<exists>e. get_tracks float32 event_blob ''neutrino'' event_hits prod_ident = Inl e"
      unfolding get_tracks_neutrino
      by (cases "event_and_run_id float32 event_blob") (auto simp: nt)
    moreover have "get_tracks float32 event_blob ''neutrino'' event_hits prod_ident = Inl IndexError"
      if "event_and_run_id float32 event_blob = Inr ids" for ids
      unfolding get_tracks_neutrino using that by (cases ids) (simp add: nt)
    ultimately show ?thesis using none by blast
  qed
  show ?thesis using c1 c2 c3 c4 by blast
qed

theorem neutrino_primary_track_witness:
  "nu_blob (SKey ''McTracks'') = Some (TableV nu_tracks)
   \<and> ''bjorkeny'' \<in> set (dtype_names nu_tracks)
   \<and> get_primary_track_index nu_blob = Inr 1
   \<and> (rows nu_tracks ! 1) ''bjorkeny'' \<noteq> Num 0
   \<and> (rows nu_tracks ! 0) ''bjorkeny'' = Num 0
   \<and> mu_blob (SKey ''McTracks'') = Some (TableV mu_tracks)
   \<and> ''bjorkeny'' \<in> set (dtype_names mu_tracks)
   \<and> list_all (\<lambda>r. r ''bjorkeny'' = Num 0) (rows mu_tracks)
   \<and> get_primary_track_index mu_blob = Inl IndexError
   \<and> get_tracks (\<lambda>x. x) mu_blob ''neutrino'' quiet_hits None = Inl IndexError"
proof -
  have bj: "''bjorkeny'' \<in> set (dtype_names nu_tracks)" using nu_tracks_names by simp
  have bj': "''bjorkeny'' \<in> set (dtype_names mu_tracks)" using mu_tracks_names by simp
  have zero: "\<forall>r\<in>set (rows mu_tracks). r ''bjorkeny'' = Num 0"
    by (simp add: mu_tracks_def track_names_def record_of_def)
  note nu = neutrino_primary_track[of nu_blob nu_tracks "\<lambda>x. x" quiet_hits None,
      OF nu_blob_tracks bj]
  note mu = neutrino_primary_track[of mu_blob mu_tracks "\<lambda>x. x" quiet_hits None,
      OF mu_blob_tracks bj']
  have "(rows nu_tracks ! 1) ''bjorkeny'' \<noteq> Num 0" "(rows nu_tracks ! 0) ''bjorkeny'' = Num 0"
    using nu nu_blob_primary by simp_all
  moreover have "get_primary_track_index mu_blob = Inl IndexError"
    "get_tracks (\<lambda>x. x) mu_blob ''neutrino'' quiet_hits None = Inl IndexError"
    using mu zero mu_blob_ids by blast+
  ultimately show ?thesis
    using nu_blob_tracks mu_blob_tracks bj bj' zero nu_blob_primary by (simp add: list_all_iff)
qed

subsection \<open>The columns of the hit matrix\<close>




subsection \<open>When the calibration is applied\<close>

text \<open>
  Claim C5, as the code has it. The table \<open>get_hits\<close> works on is \<open>McHits\<close> when
  \<open>do_mc_hits\<close> is set and \<open>Hits\<close> otherwise, but the test for calibrated coordinates
  always reads the field names of \<open>Hits\<close>. With a calibration service, \<open>geo.apply\<close>
  is called (once, on the selected table) exactly when \<open>Hits\<close> lacks \<open>pos_x\<close>;
  otherwise the selected table is used as it is and nothing is calibrated. Without a
  calibration service (\<open>geo\<close> is \<open>None\<close>) nothing is calibrated either, and a \<open>Hits\<close>
  table that lacks \<open>pos_x\<close> makes \<open>get_hits\<close> fail. With \<open>do_mc_hits\<close> unset the
  selected table is \<open>Hits\<close> itself.
\<close>

theorem calibration_follows_blob_hits:
  assumes sel: "event_blob (SKey (if do_mc_hits then ''McHits'' else ''Hits'')) = Some (TableV selected)"
      and bh: "event_blob (SKey ''Hits'') = Some (TableV blob_hits)"
  shows "get_hits event_blob (Some geo_apply) do_mc_hits data_cuts do4d =
           (if ''pos_x'' \<in> set (dtype_names blob_hits)
            then ([], assemble_hits selected data_cuts do4d)
            else ([selected], assemble_hits (geo_apply selected) data_cuts do4d))
       \<and> get_hits event_blob None do_mc_hits data_cuts do4d =
           (if ''pos_x'' \<in> set (dtype_names blob_hits)
            then ([], assemble_hits selected data_cuts do4d)
            else ([], Inl AttributeError))
       \<and> (\<not> do_mc_hits \<longrightarrow> selected = blob_hits)"
  using assms by (cases do_mc_hits) (simp_all add: get_hits_def get_table_def getitem_def)

theorem calibration_follows_blob_hits_witness:
  "nu_blob (SKey (if False then ''McHits'' else ''Hits'')) = Some (TableV cal_hits)
   \<and> nu_blob (SKey ''Hits'') = Some (TableV cal_hits)
   \<and> ''pos_x'' \<in> set (dtype_names cal_hits)
   \<and> get_hits nu_blob (Some dom_geo) False [''triggered'' \<mapsto> BoolV False] (False, ''time'')
       = ([], assemble_hits cal_hits [''triggered'' \<mapsto> BoolV False] (False, ''time''))
   \<and> [SKey ''Hits'' \<mapsto> TableV raw_hits] (SKey (if False then ''McHits'' else ''Hits''))
       = Some (TableV raw_hits)
   \<and> [SKey ''Hits'' \<mapsto> TableV raw_hits] (SKey ''Hits'') = Some (TableV raw_hits)
   \<and> ''pos_x'' \<notin> set (dtype_names raw_hits)
   \<and> get_hits [SKey ''Hits'' \<mapsto> TableV raw_hits] (Some dom_geo) False
         [''triggered'' \<mapsto> BoolV False] (False, ''time'')
       = ([raw_hits], assemble_hits (dom_geo raw_hits) [''triggered'' \<mapsto> BoolV False]
                        (False, ''time''))"
proof -
  have 1: "nu_blob (SKey (if False then ''McHits'' else ''Hits'')) = Some (TableV cal_hits)"
    and 2: "nu_blob (SKey ''Hits'') = Some (TableV cal_hits)"
    by (simp_all add: nu_blob_def)
  have 3: "[SKey ''Hits'' \<mapsto> TableV raw_hits] (SKey (if False then ''McHits'' else ''Hits''))
       = Some (TableV raw_hits)"
    and 4: "[SKey ''Hits'' \<mapsto> TableV raw_hits] (SKey ''Hits'') = Some (TableV raw_hits)"
    by simp_all
  have 5: "''pos_x'' \<in> set (dtype_names cal_hits)" by (simp add: cal_hits_def hit_names_def)
  have 6: "''pos_x'' \<notin> set (dtype_names raw_hits)" by (simp add: raw_hits_def)
  show ?thesis
    using calibration_follows_blob_hits[of nu_blob False cal_hits cal_hits dom_geo
        "[''triggered'' \<mapsto> BoolV False]" "(False, ''time'')", OF 1 2]
      calibration_follows_blob_hits[of "[SKey ''Hits'' \<mapsto> TableV raw_hits]" False raw_hits
        raw_hits dom_geo "[''triggered'' \<mapsto> BoolV False]" "(False, ''time'')", OF 3 4]
      1 2 3 4 5 6
    by simp
qed

text \<open>
  The claim as the specification states it (calibration exactly when the selected table
  lacks calibrated coordinates) does not hold. With \<open>do_mc_hits\<close> set, a calibrated
  \<open>Hits\<close> table and an uncalibrated \<open>McHits\<close> table, the selected table lacks
  \<open>pos_x\<close> and yet \<open>geo.apply\<close> is not called; reading \<open>pos_x\<close> then fails.
\<close>

theorem calibration_counterexample:
  "nu_blob (SKey ''McHits'') = Some (TableV raw_hits)
   \<and> ''pos_x'' \<notin> set (dtype_names raw_hits)
   \<and> get_hits nu_blob (Some dom_geo) True [''triggered'' \<mapsto> BoolV False] (False, ''time'')
       = ([], Inl AttributeError)"
  by (simp add: get_hits_def assemble_hits_def table_defs example_defs upt_conv_Cons)

subsection \<open>The muon branch\<close>

text \<open>
  Claim C6 fails on the code. The weights of the vertex average are read from
  \<open>event_blob[4]['McTracks']\<close>. The blob is keyed by table names, so it has no key
  \<open>4\<close>: for every muon event whose head and whose first muon row can be read,
  \<open>get_tracks\<close> raises \<open>KeyError\<close> and assembles no track vector.
\<close>

theorem muon_track_fails:
  assumes ids: "event_and_run_id float32 event_blob = Inr (event_id, run_id)"
      and mc: "event_blob (SKey ''McTracks'') = Some (TableV mc_tracks)"
      and two: "2 \<le> length (rows mc_tracks)"
      and names: "set [''type'', ''energy'', ''is_cc'', ''bjorkeny'', ''dir_x'', ''dir_y'', ''dir_z'',
                        ''time'', ''pos_x'', ''pos_y'', ''pos_z''] \<subseteq> set (dtype_names mc_tracks)"
      and no4: "event_blob (IKey 4) = None"
  shows "get_tracks float32 event_blob ''muon'' event_hits prod_ident = Inl KeyError"
  using muon_track_KeyError[of event_blob mc_tracks event_id run_id, OF mc two names no4]
  by (simp add: get_tracks_muon ids)

theorem muon_track_fails_witness:
  "event_and_run_id (\<lambda>x. x) mu_blob = Inr (Num 5, Num 100)
   \<and> mu_blob (SKey ''McTracks'') = Some (TableV mu_tracks)
   \<and> 2 \<le> length (rows mu_tracks)
   \<and> mu_blob (IKey 4) = None
   \<and> get_tracks (\<lambda>x. x) mu_blob ''muon'' quiet_hits None = Inl KeyError"
proof -
  have two: "2 \<le> length (rows mu_tracks)" by (simp add: mu_tracks_def)
  have no4: "mu_blob (IKey 4) = None" by (simp add: mu_blob_def)
  show ?thesis
    using muon_track_fails[of "\<lambda>x. x" mu_blob "Num 5" "Num 100" mu_tracks quiet_hits None,
        OF mu_blob_ids mu_blob_tracks two mu_tracks_names no4]
      mu_blob_ids mu_blob_tracks two no4
    by simp
qed

subsection \<open>The time residual of a neutrino event\<close>

text \<open>
  Claim C7. For a neutrino event whose event id, run id and primary track are found and
  whose \<open>McTracks\<close> table has the fields read from it, and a hit matrix with its five
  columns: \<open>get_tracks\<close> returns a track vector; its entry 13
  (\<open>time_residual_vertex\<close>) is the mean of the \<open>time\<close> column over the hits whose
  \<open>triggered\<close> entry equals \<open>1\<close>, minus the interaction time (entry 8, the \<open>time\<close>
  of the primary track); and when no hit has \<open>triggered = 1\<close> the vector is returned
  all the same, with \<open>NaN\<close> as entry 13.
\<close>

theorem neutrino_time_residual:
  assumes ids: "event_and_run_id float32 event_blob = Inr (event_id, run_id)"
      and p: "get_primary_track_index event_blob = Inr p"
      and mc: "event_blob (SKey ''McTracks'') = Some (TableV mc_tracks)"
      and names: "set [''type'', ''energy'', ''is_cc'', ''bjorkeny'', ''dir_x'', ''dir_y'', ''dir_z'',
                        ''time'', ''pos_x'', ''pos_y'', ''pos_z''] \<subseteq> set (dtype_names mc_tracks)"
      and cols: "5 \<le> ncols event_hits"
  shows "\<exists>v. get_tracks float32 event_blob ''neutrino'' event_hits prod_ident = Inr v
           \<and> 13 < length v
           \<and> v ! 13 = np_sub (np_mean (map (\<lambda>r. r ! 3)
                                         (filter (\<lambda>r. r ! 4 = Num 1) (data event_hits))))
                             ((rows mc_tracks ! p) ''time'')
           \<and> v ! 8 = (rows mc_tracks ! p) ''time''
           \<and> (list_all (\<lambda>r. r ! 4 \<noteq> Num 1) (data event_hits) \<longrightarrow> v ! 13 = NaN)"
proof -
  let ?resid = "np_sub (np_mean (map (\<lambda>r. r ! 3) (filter (\<lambda>r. r ! 4 = Num 1) (data event_hits))))
                       ((rows mc_tracks ! p) ''time'')"
  have quiet: "?resid = NaN" if "list_all (\<lambda>r. r ! 4 \<noteq> Num 1) (data event_hits)"
  proof -
    have "filter (\<lambda>r. r ! 4 = Num 1) (data event_hits) = []"
      using that by (simp add: filter_empty_conv list_all_iff)
    then show ?thesis by (simp add: np_mean_def np_sub_NaN)
  qed
  note nt = neutrino_track_ok[of event_blob p mc_tracks event_hits event_id run_id,
      OF p mc names cols]
  show ?thesis
    using quiet by (cases prod_ident) (simp_all add: get_tracks_neutrino ids nt)
qed

theorem neutrino_time_residual_witness:
  "event_and_run_id (\<lambda>x. x) nu_blob = Inr (Num 5, Num 100)
   \<and> get_primary_track_index nu_blob = Inr 1
   \<and> nu_blob (SKey ''McTracks'') = Some (TableV nu_tracks)
   \<and> 5 \<le> ncols quiet_hits
   \<and> list_all (\<lambda>r. r ! 4 \<noteq> Num 1) (data quiet_hits)
   \<and> (\<exists>v. get_tracks (\<lambda>x. x) nu_blob ''neutrino'' quiet_hits None = Inr v \<and> v ! 13 = NaN)
   \<and> 5 \<le> ncols loud_hits
   \<and> (\<exists>v. get_tracks (\<lambda>x. x) nu_blob ''neutrino'' loud_hits (Some 3) = Inr v
         \<and> v ! 8 = Num 2 \<and> v ! 13 = Num 13)"
proof -
  note mc = nu_blob_tracks and names = nu_tracks_names
  have cols: "5 \<le> ncols quiet_hits" by (simp add: quiet_hits_def)
  have cols': "5 \<le> ncols loud_hits" by (simp add: loud_hits_def)
  have q: "list_all (\<lambda>r. r ! 4 \<noteq> Num 1) (data quiet_hits)" by (simp add: quiet_hits_def)
  from neutrino_time_residual[of "\<lambda>x. x" nu_blob "Num 5" "Num 100" 1 nu_tracks quiet_hits None,
      OF nu_blob_ids nu_blob_primary mc names cols] q
  have quiet: "\<exists>v. get_tracks (\<lambda>x. x) nu_blob ''neutrino'' quiet_hits None = Inr v \<and> v ! 13 = NaN"
    by blast
  have t: "(rows nu_tracks ! 1) ''time'' = Num 2"
    by (simp add: nu_tracks_def track_names_def record_of_def)
  have r: "np_sub (np_mean (map (\<lambda>r. r ! 3) (filter (\<lambda>r. r ! 4 = Num 1) (data loud_hits))))
                  (Num 2) = Num 13"
    by (simp add: loud_hits_def np_mean_def np_sum_def np_add_def np_sub_def)
  from neutrino_time_residual[of "\<lambda>x. x" nu_blob "Num 5" "Num 100" 1 nu_tracks loud_hits "Some 3",
      OF nu_blob_ids nu_blob_primary mc names cols']
  have loud: "\<exists>v. get_tracks (\<lambda>x. x) nu_blob ''neutrino'' loud_hits (Some 3) = Inr v
         \<and> v ! 8 = Num 2 \<and> v ! 13 = Num 13"
    unfolding t r by blast
  show ?thesis using nu_blob_ids nu_blob_primary mc cols cols' q quiet loud by blast
qed

subsection \<open>The trigger cut\<close>

text \<open>
  Claim C10 fails on the code. With \<open>data_cuts['triggered']\<close> being \<open>True\<close>, line 89
  subscripts the bound method \<open>hits.__array__\<close> with the mask, which raises
  \<open>TypeError\<close>: \<open>get_hits\<close> never returns a matrix with the cut on, so no row is
  filtered and none survives. On a blob whose tables can be read, whose \<open>Hits\<close> table
  is calibrated and whose selected table has the \<open>triggered\<close> field, the error is
  \<open>TypeError\<close>.
\<close>

theorem triggered_cut_fails:
  assumes cut: "data_cuts ''triggered'' = Some (BoolV True)"
  shows "(\<forall>event_hits. snd (get_hits event_blob geo do_mc_hits data_cuts do4d) \<noteq> Inr event_hits)
       \<and> (event_blob (SKey (if do_mc_hits then ''McHits'' else ''Hits'')) = Some (TableV selected)
            \<and> event_blob (SKey ''Hits'') = Some (TableV blob_hits)
            \<and> ''pos_x'' \<in> set (dtype_names blob_hits)
            \<and> ''triggered'' \<in> set (dtype_names selected)
          \<longrightarrow> get_hits event_blob geo do_mc_hits data_cuts do4d = ([], Inl TypeError))"
proof -
  have never: "snd (get_hits event_blob geo do_mc_hits data_cuts do4d) \<noteq> Inr event_hits"
    for event_hits
  proof
    assume "snd (get_hits event_blob geo do_mc_hits data_cuts do4d) = Inr event_hits"
    then have "get_hits event_blob geo do_mc_hits data_cuts do4d
               = (fst (get_hits event_blob geo do_mc_hits data_cuts do4d), Inr event_hits)"
      by (metis prod.collapse)
    from get_hits_Inr[OF this] obtain hits where
      "assemble_hits hits data_cuts do4d = Inr event_hits" by blast
    then show False using assemble_hits_cut[of data_cuts hits do4d, OF cut] by (simp split: if_splits)
  qed
  have err: "get_hits event_blob geo do_mc_hits data_cuts do4d = ([], Inl TypeError)"
    if "event_blob (SKey (if do_mc_hits then ''McHits'' else ''Hits'')) = Some (TableV selected)"
      "event_blob (SKey ''Hits'') = Some (TableV blob_hits)"
      "''pos_x'' \<in> set (dtype_names blob_hits)"
      "''triggered'' \<in> set (dtype_names selected)"
    using that assemble_hits_cut[of data_cuts selected do4d, OF cut]
    by (cases do_mc_hits) (simp_all add: get_hits_def get_table_def getitem_def)
  show ?thesis using never err by blast
qed

theorem triggered_cut_fails_witness:
  "[''triggered'' \<mapsto> BoolV True] ''triggered'' = Some (BoolV True)
   \<and> nu_blob (SKey (if False then ''McHits'' else ''Hits'')) = Some (TableV cal_hits)
   \<and> nu_blob (SKey ''Hits'') = Some (TableV cal_hits)
   \<and> ''pos_x'' \<in> set (dtype_names cal_hits)
   \<and> ''triggered'' \<in> set (dtype_names cal_hits)
   \<and> get_hits nu_blob None False [''triggered'' \<mapsto> BoolV True] (False, ''time'')
       = ([], Inl TypeError)"
proof -
  have c: "[''triggered'' \<mapsto> BoolV True] ''triggered'' = Some (BoolV True)" by simp
  have 1: "nu_blob (SKey (if False then ''McHits'' else ''Hits'')) = Some (TableV cal_hits)"
    and 2: "nu_blob (SKey ''Hits'') = Some (TableV cal_hits)"
    by (simp_all add: nu_blob_def)
  have 3: "''pos_x'' \<in> set (dtype_names cal_hits)"
    and 4: "''triggered'' \<in> set (dtype_names cal_hits)"
    by (simp_all add: cal_hits_def hit_names_def)
  show ?thesis
    using triggered_cut_fails[of "[''triggered'' \<mapsto> BoolV True]" nu_blob None False
        "(False, ''time'')" cal_hits cal_hits, OF c]
      c 1 2 3 4
    by blast
qed

end
